theory Spec2Isabelle
  imports Main "HOL-Library.Sublist"
begin

section \<open>The BigQuery cache processor of PyAirbyte\<close>

text \<open>
  A shallow embedding of \<^verbatim>\<open>airbyte/_processors/sql/bigquery.py\<close>: the type
  converter \<^verbatim>\<open>BigQueryTypeConverter\<close> and the processor
  \<^verbatim>\<open>BigQuerySqlProcessor\<close>. Python strings are HOL strings, except where the
  source calls \<^verbatim>\<open>str.lower\<close>, whose argument is a sequence of code points; the
  mutable fields of the processor are a record that every method takes and returns;
  every call that
  leaves the process (SQL execution, the BigQuery client, the credential libraries, the
  file system) appends an event to a trace and gets its outcome from an environment
  that may depend on the whole trace so far; an exception is the left summand of the
  result.
\<close>

subsection \<open>Strings\<close>

text \<open>The characters that the f-strings of the source put between the parts.\<close>

definition backtick :: string where
  "backtick = ''`''"

definition newline :: string where
  "newline = [CHR 0x0A]"

text \<open>\<^verbatim>\<open>sub in s\<close>: \<open>sub\<close> occurs in \<open>s\<close> as a contiguous run.\<close>

fun str_contains :: "string \<Rightarrow> string \<Rightarrow> bool" where
  "str_contains sub [] = (sub = [])"
| "str_contains sub (c # cs) = (prefix sub (c # cs) \<or> str_contains sub cs)"

text \<open>
  \<^verbatim>\<open>s.replace(old, new, 1)\<close> for a non-empty \<open>old\<close>: the leftmost occurrence of
  \<open>old\<close> is replaced, the rest of the string is kept.
\<close>

fun replace_first :: "string \<Rightarrow> string \<Rightarrow> string \<Rightarrow> string" where
  "replace_first old new [] = []"
| "replace_first old new (c # cs) =
     (if prefix old (c # cs) then new @ drop (length old) (c # cs)
      else c # replace_first old new cs)"

subsection \<open>Exceptions, configuration and processor state\<close>

text \<open>
  \<open>Raised msg\<close> is an exception coming from a collaborator, with \<open>str(ex) = msg\<close>; the
  other two are the exceptions the module raises itself, with their message.
\<close>

datatype exn =
    PyAirbyteInternalError string
  | PyAirbyteInputError string
  | Raised string

text \<open>The fields of \<^verbatim>\<open>self.cache\<close> that the module reads.\<close>

record cache =
  schema_name :: string
  project_name :: string
  dataset_name :: string
  credentials_path :: "string option"

text \<open>A credentials object is opaque to the module; it is told apart by a label.\<close>

datatype credentials = Credentials string

text \<open>
  The two fields that \<^verbatim>\<open>__init__\<close> sets to \<^verbatim>\<open>None\<close>: the credential memo
  \<^verbatim>\<open>_credentials\<close> and the namespace memo \<^verbatim>\<open>_schema_exists\<close>.
\<close>

record processor =
  cache :: cache
  credentials_memo :: "credentials option"
  schema_exists :: "bool option"

definition init :: "cache \<Rightarrow> processor" where
  "init c = \<lparr>cache = c, credentials_memo = None, schema_exists = None\<rparr>"

text \<open>Truth value of an optional boolean and of an optional string, as \<^verbatim>\<open>if x:\<close> reads it.\<close>

fun truthy :: "bool option \<Rightarrow> bool" where
  "truthy None = False"
| "truthy (Some b) = b"

fun truthy_str :: "string option \<Rightarrow> bool" where
  "truthy_str None = False"
| "truthy_str (Some s) = (s \<noteq> [])"

subsection \<open>The type converter\<close>

text \<open>
  What \<^verbatim>\<open>to_sql_type\<close> looks at in the object that the parent's method returns:
  whether it is an instance of \<^verbatim>\<open>VARCHAR\<close>, of \<^verbatim>\<open>BIGINT\<close> or of neither (no
  SQLAlchemy class descends from both), and the name of its class.
\<close>

datatype type_engine =
    VARCHAR_instance string
  | BIGINT_instance string
  | Other_instance string


definition get_string_type :: string where
  "get_string_type = ''String''"

text \<open>
  Lines 50 to 55 of \<^verbatim>\<open>BigQueryTypeConverter.to_sql_type\<close>: what the method returns
  for the type object that the parent's method has returned.
\<close>

definition sql_type_name :: "type_engine \<Rightarrow> string" where
  "sql_type_name sql_type =
     (case sql_type of
        VARCHAR_instance n \<Rightarrow> get_string_type
      | BIGINT_instance n \<Rightarrow> ''INT64''
      | Other_instance n \<Rightarrow> n)"


subsection \<open>Calls that leave the process\<close>

text \<open>
  One event per call, in the order the calls are made: \<^verbatim>\<open>_execute_sql\<close>, the table
  creation inside \<^verbatim>\<open>_create_table_for_loading\<close>, the two credential sources,
  the construction \<^verbatim>\<open>bigquery.Client(credentials=...)\<close>, \<^verbatim>\<open>client.get_table\<close>, \<^verbatim>\<open>inspector.get_table_names\<close>, \<^verbatim>\<open>Path.open\<close>,
  \<^verbatim>\<open>client.load_table_from_file\<close> (file, destination, schema) and
  \<^verbatim>\<open>load_job.result\<close> for the job of a file.
\<close>

datatype event =
    ExecuteSql string
  | CreateTable string "(string \<times> string) list"
  | FromServiceAccountFile string
  | AuthDefault
  | NewClient credentials
  | GetTable string
  | GetTableNames string
  | PathOpen string
  | LoadTableFromFile string string "(string \<times> string) list"
  | LoadJobResult string

datatype get_table_outcome = Found | NotFound | ValueError string | OtherError string

text \<open>
  The environment answers each call from the trace so far and the arguments. For a call
  that returns nothing, \<open>None\<close> is a normal return and \<open>Some msg\<close> an exception with
  that message; for a call that returns a value, \<open>Inl msg\<close> is the exception. The last
  three fields are data of the base class: the column descriptors of a stream, the
  dialect-neutral type mapping and the name of the staging table of a batch.
\<close>

record 'd env =
  execute_sql :: "event list \<Rightarrow> string \<Rightarrow> string option"
  create_table :: "event list \<Rightarrow> string \<Rightarrow> (string \<times> string) list \<Rightarrow> string option"
  from_service_account_file :: "event list \<Rightarrow> string \<Rightarrow> string + credentials"
  auth_default :: "event list \<Rightarrow> string + credentials"
  client_init :: "event list \<Rightarrow> credentials \<Rightarrow> string option"
  client_get_table :: "event list \<Rightarrow> string \<Rightarrow> get_table_outcome"
  inspector_get_table_names :: "event list \<Rightarrow> string \<Rightarrow> string + string list"
  path_open :: "event list \<Rightarrow> string \<Rightarrow> string option"
  client_load_table_from_file ::
    "event list \<Rightarrow> string \<Rightarrow> string \<Rightarrow> (string \<times> string) list \<Rightarrow> string option"
  load_job_result :: "event list \<Rightarrow> string \<Rightarrow> string option"
  stream_properties :: "string \<Rightarrow> (string \<times> 'd) list"
  super_to_sql_type :: "'d \<Rightarrow> type_engine"
  temp_table_name_of :: "string \<Rightarrow> string \<Rightarrow> string"

text \<open>A method returns its result or the exception, the processor and the trace.\<close>

type_synonym 'a outcome = "(exn + 'a) \<times> processor \<times> event list"

subsection \<open>The processor's methods\<close>

definition fully_qualified :: "processor \<Rightarrow> string \<Rightarrow> string" where
  "fully_qualified p table_name =
     backtick @ schema_name (cache p) @ backtick @ ''.'' @ backtick @ table_name @ backtick"



definition create_schema_sql :: "processor \<Rightarrow> string" where
  "create_schema_sql p = ''CREATE SCHEMA IF NOT EXISTS '' @ schema_name (cache p)"

definition ensure_schema_exists :: "'d env \<Rightarrow> processor \<Rightarrow> event list \<Rightarrow> unit outcome" where
  "ensure_schema_exists e p tr =
     (if truthy (schema_exists p) then (Inr (), p, tr)
      else
        let sql = create_schema_sql p in
        (case execute_sql e tr sql of
           None \<Rightarrow> (Inr (), p\<lparr>schema_exists := Some True\<rparr>, tr @ [ExecuteSql sql])
         | Some msg \<Rightarrow>
             if \<not> str_contains ''already exists'' msg
             then (Inl (Raised msg), p, tr @ [ExecuteSql sql])
             else (Inr (), p\<lparr>schema_exists := Some True\<rparr>, tr @ [ExecuteSql sql])))"

definition get_credentials :: "'d env \<Rightarrow> processor \<Rightarrow> event list \<Rightarrow> credentials outcome" where
  "get_credentials e p tr =
     (case credentials_memo p of
        Some c \<Rightarrow> (Inr c, p, tr)
      | None \<Rightarrow>
          if truthy_str (credentials_path (cache p)) then
            let path = the (credentials_path (cache p)) in
            (case from_service_account_file e tr path of
               Inl msg \<Rightarrow> (Inl (Raised msg), p, tr @ [FromServiceAccountFile path])
             | Inr c \<Rightarrow>
                 (Inr c, p\<lparr>credentials_memo := Some c\<rparr>, tr @ [FromServiceAccountFile path]))
          else
            (case auth_default e tr of
               Inl msg \<Rightarrow> (Inl (Raised msg), p, tr @ [AuthDefault])
             | Inr c \<Rightarrow> (Inr c, p\<lparr>credentials_memo := Some c\<rparr>, tr @ [AuthDefault])))"

text \<open>
  The expression \<^verbatim>\<open>bigquery.Client(credentials=self._get_credentials())\<close>; the client
  is told apart by its credentials.
\<close>

definition bigquery_client :: "'d env \<Rightarrow> processor \<Rightarrow> event list \<Rightarrow> credentials outcome" where
  "bigquery_client e p tr =
     (case get_credentials e p tr of
        (Inl ex, p1, tr1) \<Rightarrow> (Inl ex, p1, tr1)
      | (Inr c, p1, tr1) \<Rightarrow>
          (case client_init e tr1 c of
             Some msg \<Rightarrow> (Inl (Raised msg), p1, tr1 @ [NewClient c])
           | None \<Rightarrow> (Inr c, p1, tr1 @ [NewClient c])))"

definition table_exists :: "'d env \<Rightarrow> processor \<Rightarrow> event list \<Rightarrow> string \<Rightarrow> bool outcome" where
  "table_exists e p tr table_name =
     (case bigquery_client e p tr of
        (Inl ex, p', tr') \<Rightarrow> (Inl ex, p', tr')
      | (Inr c, p', tr') \<Rightarrow>
          let table_id =
                project_name (cache p') @ ''.'' @ dataset_name (cache p') @ ''.'' @ table_name
          in
          (case client_get_table e tr' table_id of
             Found \<Rightarrow> (Inr True, p', tr' @ [GetTable table_id])
           | NotFound \<Rightarrow> (Inr False, p', tr' @ [GetTable table_id])
           | ValueError msg \<Rightarrow>
               (Inl (PyAirbyteInputError ''Invalid project name or dataset name.''), p',
                tr' @ [GetTable table_id])
           | OtherError msg \<Rightarrow> (Inl (Raised msg), p', tr' @ [GetTable table_id])))"

definition strip_schema_prefix :: "string \<Rightarrow> string \<Rightarrow> string" where
  "strip_schema_prefix schema_prefix table =
     (if prefix schema_prefix table then replace_first schema_prefix [] table else table)"

definition get_tables_list :: "'d env \<Rightarrow> processor \<Rightarrow> event list \<Rightarrow> string list outcome" where
  "get_tables_list e p tr =
     (case inspector_get_table_names e tr (schema_name (cache p)) of
        Inl msg \<Rightarrow> (Inl (Raised msg), p, tr @ [GetTableNames (schema_name (cache p))])
      | Inr tables \<Rightarrow>
          let schema_prefix = schema_name (cache p) @ ''.'' in
          (Inr (map (strip_schema_prefix schema_prefix) tables), p,
           tr @ [GetTableNames (schema_name (cache p))]))"

text \<open>\<^verbatim>\<open>sep.join(parts)\<close>.\<close>

fun join :: "string \<Rightarrow> string list \<Rightarrow> string" where
  "join sep [] = []"
| "join sep [x] = x"
| "join sep (x # y # ys) = x @ sep @ join sep (y # ys)"

definition swap_commands :: "processor \<Rightarrow> string \<Rightarrow> string \<Rightarrow> string list" where
  "swap_commands p temp_table_name final_table_name =
     (let deletion_name = final_table_name @ ''_deleteme'' in
      [''ALTER TABLE '' @ fully_qualified p final_table_name @ '' ''
         @ ''RENAME TO '' @ deletion_name @ '';'',
       ''ALTER TABLE '' @ fully_qualified p temp_table_name @ '' ''
         @ ''RENAME TO '' @ final_table_name @ '';'',
       ''DROP TABLE '' @ fully_qualified p deletion_name @ '';''])"

definition swap_temp_table_with_final_table ::
  "'d env \<Rightarrow> processor \<Rightarrow> event list \<Rightarrow> string \<Rightarrow> string option \<Rightarrow> string option \<Rightarrow> unit outcome"
where
  "swap_temp_table_with_final_table e p tr stream_name temp_table_name final_table_name =
     (case final_table_name of
        None \<Rightarrow> (Inl (PyAirbyteInternalError ''Arg 'final_table_name' cannot be None.''), p, tr)
      | Some final \<Rightarrow>
          (case temp_table_name of
             None \<Rightarrow>
               (Inl (PyAirbyteInternalError ''Arg 'temp_table_name' cannot be None.''), p, tr)
           | Some temp \<Rightarrow>
               let commands = join newline (swap_commands p temp final) in
               (case execute_sql e tr commands of
                  None \<Rightarrow> (Inr (), p, tr @ [ExecuteSql commands])
                | Some msg \<Rightarrow> (Inl (Raised msg), p, tr @ [ExecuteSql commands]))))"

subsection \<open>Loading the files of a batch\<close>

text \<open>
  Modelled from the spec: \<^verbatim>\<open>_get_sql_column_definitions\<close> belongs to the base class
  \<^verbatim>\<open>SqlProcessorBase\<close> (\<^verbatim>\<open>airbyte/_processors/sql/base.py\<close>). The spec has it
  resolve the full column set and types for the stream via the type converter over the
  stream's known column descriptors, an ordered mapping from column name to descriptor.
  The spec has the converter total, so for a known descriptor \<open>d\<close> the generic mapping
  returns the type object \<open>super_to_sql_type e d\<close>, and the converter makes
  \<open>sql_type_name\<close> of it.
\<close>

definition get_sql_column_definitions :: "'d env \<Rightarrow> string \<Rightarrow> (string \<times> string) list" where
  "get_sql_column_definitions e stream_name =
     map (\<lambda>(name, d). (name, sql_type_name (super_to_sql_type e d)))
       (stream_properties e stream_name)"

text \<open>
  Modelled from the spec: \<^verbatim>\<open>_create_table_for_loading\<close> belongs to the same base
  class. The spec has it derive a staging table name that is deterministic in the stream
  and the batch, create the staging table with exactly the columns above, and return
  the name.
\<close>

definition create_table_for_loading ::
  "'d env \<Rightarrow> processor \<Rightarrow> event list \<Rightarrow> string \<Rightarrow> string \<Rightarrow> string outcome"
where
  "create_table_for_loading e p tr stream_name batch_id =
     (let temp_table_name = temp_table_name_of e stream_name batch_id;
          columns = get_sql_column_definitions e stream_name
      in
      (case create_table e tr temp_table_name columns of
         Some msg \<Rightarrow> (Inl (Raised msg), p, tr @ [CreateTable temp_table_name columns])
       | None \<Rightarrow> (Inr temp_table_name, p, tr @ [CreateTable temp_table_name columns])))"

text \<open>
  The body of the \<^verbatim>\<open>for file_path in files\<close> loop: open the file, submit the load job
  with the schema of the stream's column definitions, leave the \<^verbatim>\<open>with\<close> block, wait
  for the job. The first exception ends the loop.
\<close>

fun load_files ::
  "'d env \<Rightarrow> string \<Rightarrow> string \<Rightarrow> string list \<Rightarrow> event list \<Rightarrow> exn option \<times> event list"
where
  "load_files e stream_name table_id [] tr = (None, tr)"
| "load_files e stream_name table_id (file_path # files) tr =
     (case path_open e tr file_path of
        Some msg \<Rightarrow> (Some (Raised msg), tr @ [PathOpen file_path])
      | None \<Rightarrow>
          let tr1 = tr @ [PathOpen file_path];
              schema = get_sql_column_definitions e stream_name
          in
          (case client_load_table_from_file e tr1 file_path table_id schema of
             Some msg \<Rightarrow>
               (Some (Raised msg), tr1 @ [LoadTableFromFile file_path table_id schema])
           | None \<Rightarrow>
               let tr2 = tr1 @ [LoadTableFromFile file_path table_id schema] in
               (case load_job_result e tr2 file_path of
                  Some msg \<Rightarrow> (Some (Raised msg), tr2 @ [LoadJobResult file_path])
                | None \<Rightarrow>
                    load_files e stream_name table_id files (tr2 @ [LoadJobResult file_path]))))"

definition write_files_to_new_table ::
  "'d env \<Rightarrow> processor \<Rightarrow> event list \<Rightarrow> string list \<Rightarrow> string \<Rightarrow> string \<Rightarrow> string outcome"
where
  "write_files_to_new_table e p tr files stream_name batch_id =
     (case create_table_for_loading e p tr stream_name batch_id of
        (Inl ex, p1, tr1) \<Rightarrow> (Inl ex, p1, tr1)
      | (Inr temp_table_name, p1, tr1) \<Rightarrow>
          let table_id =
                project_name (cache p1) @ ''.'' @ dataset_name (cache p1) @ ''.''
                  @ temp_table_name
          in
          (case bigquery_client e p1 tr1 of
             (Inl ex, p2, tr2) \<Rightarrow> (Inl ex, p2, tr2)
           | (Inr c, p2, tr2) \<Rightarrow>
               (case load_files e stream_name table_id files tr2 of
                  (Some ex, tr3) \<Rightarrow> (Inl ex, p2, tr3)
                | (None, tr3) \<Rightarrow> (Inr temp_table_name, p2, tr3))))"

subsection \<open>A driver, the vocabulary of traces and example environments\<close>

text \<open>
  A caller that invokes \<^verbatim>\<open>_ensure_schema_exists\<close> \<open>n\<close> times on the same processor,
  catching the exception of each call and recording every outcome in order.
\<close>

fun ensure_schema_exists_n ::
  "'d env \<Rightarrow> nat \<Rightarrow> processor \<Rightarrow> event list \<Rightarrow> (exn + unit) list \<times> processor \<times> event list"
where
  "ensure_schema_exists_n e 0 p tr = ([], p, tr)"
| "ensure_schema_exists_n e (Suc n) p tr =
     (case ensure_schema_exists e p tr of
        (r, p1, tr1) \<Rightarrow>
          (case ensure_schema_exists_n e n p1 tr1 of
             (rs, p2, tr2) \<Rightarrow> (r # rs, p2, tr2)))"

text \<open>
  The three calls that one pass of the loop makes for a file when none of them raises,
  the events of the construction of the client and the events that belong to the loop.
\<close>

definition load_events :: "string \<Rightarrow> (string \<times> string) list \<Rightarrow> string \<Rightarrow> event list" where
  "load_events table_id schema file_path =
     [PathOpen file_path, LoadTableFromFile file_path table_id schema, LoadJobResult file_path]"

fun is_client_event :: "event \<Rightarrow> bool" where
  "is_client_event AuthDefault = True"
| "is_client_event (FromServiceAccountFile path) = True"
| "is_client_event (NewClient c) = True"
| "is_client_event ev = False"

fun is_load_event :: "event \<Rightarrow> bool" where
  "is_load_event (PathOpen f) = True"
| "is_load_event (LoadTableFromFile f t s) = True"
| "is_load_event (LoadJobResult f) = True"
| "is_load_event ev = False"

text \<open>
  A project \<open>proj\<close> with the dataset \<open>main\<close> and no credentials file; a stream with an
  integer column \<open>id\<close> and a string column \<open>name\<close>.
\<close>

definition example_cache :: cache where
  "example_cache =
     \<lparr>schema_name = ''main'', project_name = ''proj'', dataset_name = ''main'',
      credentials_path = None\<rparr>"

datatype json_type = JsonInteger | JsonString | JsonObject

fun example_super_to_sql_type :: "json_type \<Rightarrow> type_engine" where
  "example_super_to_sql_type JsonInteger = BIGINT_instance ''BIGINT''"
| "example_super_to_sql_type JsonString = VARCHAR_instance ''VARCHAR''"
| "example_super_to_sql_type JsonObject = Other_instance ''JSON''"



text \<open>
  A warehouse in which every call succeeds, no table is found by \<^verbatim>\<open>get_table\<close>, and
  the inspector lists one qualified and one unqualified table name.
\<close>

definition example_env :: "json_type env" where
  "example_env =
     \<lparr>execute_sql = (\<lambda>tr sql. None),
      create_table = (\<lambda>tr name columns. None),
      from_service_account_file = (\<lambda>tr path. Inr (Credentials path)),
      auth_default = (\<lambda>tr. Inr (Credentials ''default'')),
      client_init = (\<lambda>tr c. None),
      client_get_table = (\<lambda>tr table_id. NotFound),
      inspector_get_table_names = (\<lambda>tr schema. Inr [''main.users'', ''orders'']),
      path_open = (\<lambda>tr file_path. None),
      client_load_table_from_file = (\<lambda>tr file_path destination schema. None),
      load_job_result = (\<lambda>tr file_path. None),
      stream_properties = (\<lambda>stream. [(''id'', JsonInteger), (''name'', JsonString)]),
      super_to_sql_type = example_super_to_sql_type,
      temp_table_name_of = (\<lambda>stream batch. stream @ ''_'' @ batch)\<rparr>"

text \<open>The same warehouse when every SQL command fails with the given message.\<close>

definition failing_env :: "string \<Rightarrow> json_type env" where
  "failing_env msg = example_env\<lparr>execute_sql := (\<lambda>tr sql. Some msg)\<rparr>"

section \<open>Verified properties\<close>

subsection \<open>Identifier quoting\<close>



subsection \<open>Listing tables\<close>

lemma replace_first_prefix:
  "prefix old s \<Longrightarrow> old \<noteq> [] \<Longrightarrow> replace_first old [] s = drop (length old) s"
  by (cases s) auto

lemma strip_schema_prefix_qualified:
  "strip_schema_prefix (schema @ ''.'') (schema @ ''.'' @ name) = name"
proof -
  have "prefix (schema @ ''.'') (schema @ ''.'' @ name)"
    by simp
  moreover have "schema @ ''.'' \<noteq> []"
    by simp
  ultimately have "replace_first (schema @ ''.'') [] (schema @ ''.'' @ name)
      = drop (length (schema @ ''.'')) (schema @ ''.'' @ name)"
    by (rule replace_first_prefix)
  then show ?thesis
    by (simp add: strip_schema_prefix_def)
qed

lemma strip_schema_prefix_unqualified:
  "\<not> prefix schema_prefix table \<Longrightarrow> strip_schema_prefix schema_prefix table = table"
  by (simp add: strip_schema_prefix_def)

text \<open>
  C9. When the inspector returns the table names, \<^verbatim>\<open>_get_tables_list\<close> returns one
  name for each of them, in the same order: a name the warehouse returned as
  \<open>{schema_name}.{name}\<close> comes back as \<open>name\<close>, and a name that does not start with
  \<open>{schema_name}.\<close> comes back unchanged.
\<close>

theorem get_tables_list_strips_schema_prefix:
  assumes "inspector_get_table_names e tr (schema_name (cache p)) = Inr tables"
  shows "\<exists>names. get_tables_list e p tr
             = (Inr names, p, tr @ [GetTableNames (schema_name (cache p))])
           \<and> length names = length tables
           \<and> (\<forall>i < length tables.
                (\<forall>name. tables ! i = schema_name (cache p) @ ''.'' @ name \<longrightarrow> names ! i = name)
              \<and> (\<not> prefix (schema_name (cache p) @ ''.'') (tables ! i)
                    \<longrightarrow> names ! i = tables ! i))"
proof -
  let ?pre = "schema_name (cache p) @ ''.''"
  let ?names = "map (strip_schema_prefix ?pre) tables"
  have run: "get_tables_list e p tr
      = (Inr ?names, p, tr @ [GetTableNames (schema_name (cache p))])"
    using assms by (simp add: get_tables_list_def)
  have each: "\<forall>i < length tables.
      (\<forall>name. tables ! i = schema_name (cache p) @ ''.'' @ name \<longrightarrow> ?names ! i = name)
      \<and> (\<not> prefix ?pre (tables ! i) \<longrightarrow> ?names ! i = tables ! i)"
  proof (intro allI impI conjI)
    fix i name
    assume "i < length tables" and "tables ! i = schema_name (cache p) @ ''.'' @ name"
    then show "?names ! i = name"
      using strip_schema_prefix_qualified [of "schema_name (cache p)" name] by simp
  next
    fix i
    assume "i < length tables" and "\<not> prefix ?pre (tables ! i)"
    then show "?names ! i = tables ! i"
      by (simp add: strip_schema_prefix_unqualified)
  qed
  from run each show ?thesis
    by (intro exI [of _ ?names]) simp
qed

theorem get_tables_list_strips_schema_prefix_witness:
  "inspector_get_table_names example_env [] (schema_name (cache (init example_cache)))
     = Inr [''main.users'', ''orders'']
   \<and> get_tables_list example_env (init example_cache) []
     = (Inr [''users'', ''orders''], init example_cache, [GetTableNames ''main''])"
proof -
  have h: "inspector_get_table_names example_env [] (schema_name (cache (init example_cache)))
     = Inr [''main.users'', ''orders'']"
    by (simp add: example_env_def)
  from get_tables_list_strips_schema_prefix [OF h]
  obtain names where run: "get_tables_list example_env (init example_cache) []
        = (Inr names, init example_cache,
           [] @ [GetTableNames (schema_name (cache (init example_cache)))])"
    and len: "length names = length [''main.users'', ''orders'']"
    and each: "\<forall>i < length [''main.users'', ''orders''].
        (\<forall>name. [''main.users'', ''orders''] ! i
             = schema_name (cache (init example_cache)) @ ''.'' @ name \<longrightarrow> names ! i = name)
        \<and> (\<not> prefix (schema_name (cache (init example_cache)) @ ''.'')
                ([''main.users'', ''orders''] ! i)
            \<longrightarrow> names ! i = [''main.users'', ''orders''] ! i)"
    by blast
  have s: "schema_name (cache (init example_cache)) = ''main''"
    by (simp add: init_def example_cache_def)
  from each [rule_format, of 0] have n0: "names ! 0 = ''users''"
    by (simp add: s)
  from each [rule_format, of 1] have n1: "names ! 1 = ''orders''"
    by (simp add: s)
  from len have "length names = 2"
    by simp
  then have "names = [names ! 0, names ! 1]"
    by (cases names; cases "tl names") auto
  with n0 n1 have "names = [''users'', ''orders'']"
    by simp
  with run h s show ?thesis
    by simp
qed

subsection \<open>Arguments of the swap\<close>

text \<open>
  C2. When the staging table name or the final table name is \<^verbatim>\<open>None\<close>, the swap
  raises \<^verbatim>\<open>PyAirbyteInternalError\<close> and the trace is the one it was called with: no
  SQL has been executed.
\<close>

theorem swap_rejects_unset_table_names:
  assumes "temp_table_name = None \<or> final_table_name = None"
  shows "\<exists>msg. swap_temp_table_with_final_table e p tr stream_name temp_table_name
                 final_table_name
               = (Inl (PyAirbyteInternalError msg), p, tr)"
  using assms
  by (auto simp: swap_temp_table_with_final_table_def split: option.splits)

theorem swap_rejects_unset_table_names_witness:
  "((None :: string option) = None \<or> Some ''users'' = (None :: string option))
   \<and> (\<exists>msg. swap_temp_table_with_final_table example_env (init example_cache) []
               ''users'' None (Some ''users'')
             = (Inl (PyAirbyteInternalError msg), init example_cache, []))"
  using swap_rejects_unset_table_names
          [of None "Some ''users''" example_env "init example_cache" "[]" "''users''"]
  by simp

subsection \<open>Type conversion\<close>




subsection \<open>Failure of the namespace creation\<close>

lemma ensure_schema_exists_attempts:
  "\<not> truthy (schema_exists p) \<Longrightarrow>
   \<exists>r p'. ensure_schema_exists e p tr = (r, p', tr @ [ExecuteSql (create_schema_sql p)])"
  by (cases "execute_sql e tr (create_schema_sql p)")
     (auto simp: ensure_schema_exists_def Let_def)

text \<open>
  C3. When the memo is not set and the \<^verbatim>\<open>CREATE SCHEMA\<close> command raises: if the
  message contains \<open>already exists\<close>, the call returns normally and the memo is true; if
  not, the exception reaches the caller, the processor is unchanged (the memo stays
  unset), and a later call on that processor, in any environment, executes the command
  again.
\<close>

theorem ensure_schema_exists_on_failure:
  assumes "\<not> truthy (schema_exists p)"
    and "execute_sql e tr (create_schema_sql p) = Some msg"
  shows "(str_contains ''already exists'' msg \<longrightarrow>
            ensure_schema_exists e p tr
              = (Inr (), p\<lparr>schema_exists := Some True\<rparr>,
                 tr @ [ExecuteSql (create_schema_sql p)]))
       \<and> (\<not> str_contains ''already exists'' msg \<longrightarrow>
            ensure_schema_exists e p tr
              = (Inl (Raised msg), p, tr @ [ExecuteSql (create_schema_sql p)])
            \<and> (\<forall>e' tr'. \<exists>r p'.
                  ensure_schema_exists e' p tr'
                    = (r, p', tr' @ [ExecuteSql (create_schema_sql p)])))"
proof (intro conjI impI)
  assume "str_contains ''already exists'' msg"
  with assms show "ensure_schema_exists e p tr
      = (Inr (), p\<lparr>schema_exists := Some True\<rparr>, tr @ [ExecuteSql (create_schema_sql p)])"
    by (simp add: ensure_schema_exists_def)
next
  assume "\<not> str_contains ''already exists'' msg"
  with assms show "ensure_schema_exists e p tr
      = (Inl (Raised msg), p, tr @ [ExecuteSql (create_schema_sql p)])"
    by (simp add: ensure_schema_exists_def)
next
  from assms(1) show "\<forall>e' tr'. \<exists>r p'.
      ensure_schema_exists e' p tr' = (r, p', tr' @ [ExecuteSql (create_schema_sql p)])"
    by (intro allI ensure_schema_exists_attempts)
qed

theorem ensure_schema_exists_on_failure_witness:
  "ensure_schema_exists (failing_env ''Dataset proj:main already exists'') (init example_cache) []
     = (Inr (), (init example_cache)\<lparr>schema_exists := Some True\<rparr>,
        [ExecuteSql ''CREATE SCHEMA IF NOT EXISTS main''])
   \<and> ensure_schema_exists (failing_env ''connection refused'') (init example_cache) []
     = (Inl (Raised ''connection refused''), init example_cache,
        [ExecuteSql ''CREATE SCHEMA IF NOT EXISTS main''])"
proof -
  have t: "\<not> truthy (schema_exists (init example_cache))"
    by (simp add: init_def)
  have s: "create_schema_sql (init example_cache) = ''CREATE SCHEMA IF NOT EXISTS main''"
    by (simp add: create_schema_sql_def init_def example_cache_def)
  have x1: "execute_sql (failing_env ''Dataset proj:main already exists'') []
              (create_schema_sql (init example_cache))
            = Some ''Dataset proj:main already exists''"
    by (simp add: failing_env_def)
  have x2: "execute_sql (failing_env ''connection refused'') []
              (create_schema_sql (init example_cache))
            = Some ''connection refused''"
    by (simp add: failing_env_def)
  have c1: "str_contains ''already exists'' ''Dataset proj:main already exists''"
    by simp
  have c2: "\<not> str_contains ''already exists'' ''connection refused''"
    by simp
  from ensure_schema_exists_on_failure [OF t x1] c1
  have r1: "ensure_schema_exists (failing_env ''Dataset proj:main already exists'')
              (init example_cache) []
            = (Inr (), (init example_cache)\<lparr>schema_exists := Some True\<rparr>,
               [] @ [ExecuteSql (create_schema_sql (init example_cache))])"
    by blast
  from ensure_schema_exists_on_failure [OF t x2] c2
  have r2: "ensure_schema_exists (failing_env ''connection refused'') (init example_cache) []
            = (Inl (Raised ''connection refused''), init example_cache,
               [] @ [ExecuteSql (create_schema_sql (init example_cache))])"
    by blast
  from r1 r2 show ?thesis
    by (simp only: s append_Nil) 
qed

subsection \<open>Repeated calls of the namespace creation\<close>

lemma ensure_schema_exists_memo_hit:
  "truthy (schema_exists p) \<Longrightarrow> ensure_schema_exists e p tr = (Inr (), p, tr)"
  by (simp add: ensure_schema_exists_def)

lemma ensure_schema_exists_n_memo_hit:
  "truthy (schema_exists p) \<Longrightarrow>
   ensure_schema_exists_n e n p tr = (replicate n (Inr ()), p, tr)"
  by (induction n) (simp_all add: ensure_schema_exists_memo_hit replicate_app_Cons_same)

lemma ensure_schema_exists_returns:
  assumes "ensure_schema_exists e p tr = (Inr (), p1, tr1)"
  shows "truthy (schema_exists p1)
         \<and> (tr1 = tr \<or> tr1 = tr @ [ExecuteSql (create_schema_sql p)])"
  using assms
  by (auto simp: ensure_schema_exists_def Let_def split: if_splits option.splits)

lemma ensure_schema_exists_raises:
  assumes "ensure_schema_exists e p tr = (Inl x, p1, tr1)"
  shows "\<exists>msg. x = Raised msg \<and> \<not> str_contains ''already exists'' msg \<and> p1 = p"
  using assms
  by (auto simp: ensure_schema_exists_def Let_def split: if_splits option.splits)

lemma ensure_schema_exists_n_raises:
  "Inl x \<in> set (fst (ensure_schema_exists_n e n p tr)) \<Longrightarrow>
   \<exists>msg. x = Raised msg \<and> \<not> str_contains ''already exists'' msg"
proof (induction n arbitrary: p tr)
  case 0
  then show ?case by simp
next
  case (Suc n)
  obtain r p1 tr1 where first: "ensure_schema_exists e p tr = (r, p1, tr1)"
    by (cases "ensure_schema_exists e p tr") auto
  obtain rs p2 tr2 where rest: "ensure_schema_exists_n e n p1 tr1 = (rs, p2, tr2)"
    by (cases "ensure_schema_exists_n e n p1 tr1") auto
  from Suc.prems first rest have "Inl x = r \<or> Inl x \<in> set rs"
    by auto
  then show ?case
  proof
    assume "Inl x = r"
    with first show ?thesis
      using ensure_schema_exists_raises [of e p tr x p1 tr1] by blast
  next
    assume "Inl x \<in> set rs"
    with rest show ?thesis
      using Suc.IH [of p1 tr1] by simp
  qed
qed

text \<open>
  C4, as amended. Among \<open>n + 1\<close> calls on one processor, no call raises an exception
  whose message contains \<open>already exists\<close>. If the first call returns normally, it has
  executed the command at most once, the \<open>n\<close> calls after it return normally with the
  processor and the trace unchanged, and so the \<open>n + 1\<close> calls together have executed the
  command at most once. The counterexample below shows what the claim as stated misses:
  a call that raises leaves the memo unset, and two calls execute the command twice.
\<close>

theorem ensure_schema_exists_memoized:
  "(\<forall>msg. Inl (Raised msg) \<in> set (fst (ensure_schema_exists_n e (Suc n) p tr))
           \<longrightarrow> \<not> str_contains ''already exists'' msg)
   \<and> (\<forall>p1 tr1. ensure_schema_exists e p tr = (Inr (), p1, tr1) \<longrightarrow>
         (tr1 = tr \<or> tr1 = tr @ [ExecuteSql (create_schema_sql p)])
         \<and> ensure_schema_exists_n e n p1 tr1 = (replicate n (Inr ()), p1, tr1)
         \<and> ensure_schema_exists_n e (Suc n) p tr = (replicate (Suc n) (Inr ()), p1, tr1))"
proof (intro conjI allI impI)
  fix msg
  assume "Inl (Raised msg) \<in> set (fst (ensure_schema_exists_n e (Suc n) p tr))"
  then show "\<not> str_contains ''already exists'' msg"
    using ensure_schema_exists_n_raises [of "Raised msg" e "Suc n" p tr] by simp
next
  fix p1 tr1
  assume first: "ensure_schema_exists e p tr = (Inr (), p1, tr1)"
  then show "tr1 = tr \<or> tr1 = tr @ [ExecuteSql (create_schema_sql p)]"
    using ensure_schema_exists_returns by blast
  from first have "truthy (schema_exists p1)"
    using ensure_schema_exists_returns by blast
  then show rest: "ensure_schema_exists_n e n p1 tr1 = (replicate n (Inr ()), p1, tr1)"
    by (rule ensure_schema_exists_n_memo_hit)
  from first rest
  show "ensure_schema_exists_n e (Suc n) p tr = (replicate (Suc n) (Inr ()), p1, tr1)"
    by simp
qed

theorem ensure_schema_exists_memoized_witness:
  "ensure_schema_exists example_env (init example_cache) []
     = (Inr (), (init example_cache)\<lparr>schema_exists := Some True\<rparr>,
        [ExecuteSql ''CREATE SCHEMA IF NOT EXISTS main''])
   \<and> ensure_schema_exists_n example_env (Suc 2) (init example_cache) []
     = ([Inr (), Inr (), Inr ()], (init example_cache)\<lparr>schema_exists := Some True\<rparr>,
        [ExecuteSql ''CREATE SCHEMA IF NOT EXISTS main''])"
proof -
  have first: "ensure_schema_exists example_env (init example_cache) []
     = (Inr (), (init example_cache)\<lparr>schema_exists := Some True\<rparr>,
        [ExecuteSql ''CREATE SCHEMA IF NOT EXISTS main''])"
    by (simp add: ensure_schema_exists_def create_schema_sql_def init_def example_cache_def
          example_env_def)
  from ensure_schema_exists_memoized [of example_env 2 "init example_cache" "[]"] first
  have "ensure_schema_exists_n example_env (Suc 2) (init example_cache) []
     = (replicate (Suc 2) (Inr ()), (init example_cache)\<lparr>schema_exists := Some True\<rparr>,
        [ExecuteSql ''CREATE SCHEMA IF NOT EXISTS main''])"
    by blast
  moreover have "replicate (Suc 2) (Inr ()) = [Inr (), Inr (), Inr () :: exn + unit]"
    by (simp add: numeral_2_eq_2)
  ultimately show ?thesis
    using first by simp
qed

theorem ensure_schema_exists_twice_counterexample:
  "ensure_schema_exists_n (failing_env ''connection refused'') (Suc (Suc 0))
     (init example_cache) []
   = ([Inl (Raised ''connection refused''), Inl (Raised ''connection refused'')],
      init example_cache,
      [ExecuteSql ''CREATE SCHEMA IF NOT EXISTS main'',
       ExecuteSql ''CREATE SCHEMA IF NOT EXISTS main''])"
  by (simp add: ensure_schema_exists_def create_schema_sql_def init_def example_cache_def
        example_env_def failing_env_def)

subsection \<open>Credentials\<close>

lemma get_credentials_memo_hit:
  "credentials_memo p = Some c \<Longrightarrow> get_credentials e p tr = (Inr c, p, tr)"
  by (simp add: get_credentials_def)

lemma get_credentials_returns:
  assumes "get_credentials e p tr = (Inr c, p1, tr1)"
  shows "credentials_memo p1 = Some c"
  using assms
  by (auto simp: get_credentials_def Let_def split: option.splits if_splits sum.splits)

text \<open>
  C8. With no cached credentials, a non-empty configured path is loaded with
  \<^verbatim>\<open>from_service_account_file\<close> and nothing else is tried; with no path (or an empty
  one) \<^verbatim>\<open>google.auth.default\<close> is called. A successful resolution is stored, and
  after any call that returned credentials, every later call on the resulting processor
  returns the same credentials and leaves the processor and the trace unchanged, in any
  environment.
\<close>

theorem get_credentials_order_and_cache:
  "(\<forall>path. credentials_memo p = None \<and> credentials_path (cache p) = Some path \<and> path \<noteq> []
        \<longrightarrow> get_credentials e p tr
            = (case from_service_account_file e tr path of
                 Inl msg \<Rightarrow> (Inl (Raised msg), p, tr @ [FromServiceAccountFile path])
               | Inr c \<Rightarrow>
                   (Inr c, p\<lparr>credentials_memo := Some c\<rparr>,
                    tr @ [FromServiceAccountFile path])))
   \<and> (credentials_memo p = None \<and> \<not> truthy_str (credentials_path (cache p))
        \<longrightarrow> get_credentials e p tr
            = (case auth_default e tr of
                 Inl msg \<Rightarrow> (Inl (Raised msg), p, tr @ [AuthDefault])
               | Inr c \<Rightarrow> (Inr c, p\<lparr>credentials_memo := Some c\<rparr>, tr @ [AuthDefault])))
   \<and> (\<forall>c p1 tr1. get_credentials e p tr = (Inr c, p1, tr1)
        \<longrightarrow> (\<forall>e' tr'. get_credentials e' p1 tr' = (Inr c, p1, tr')))"
proof (intro conjI allI impI)
  fix path
  assume "credentials_memo p = None \<and> credentials_path (cache p) = Some path \<and> path \<noteq> []"
  then show "get_credentials e p tr
            = (case from_service_account_file e tr path of
                 Inl msg \<Rightarrow> (Inl (Raised msg), p, tr @ [FromServiceAccountFile path])
               | Inr c \<Rightarrow>
                   (Inr c, p\<lparr>credentials_memo := Some c\<rparr>,
                    tr @ [FromServiceAccountFile path]))"
    by (simp add: get_credentials_def)
next
  assume "credentials_memo p = None \<and> \<not> truthy_str (credentials_path (cache p))"
  then show "get_credentials e p tr
            = (case auth_default e tr of
                 Inl msg \<Rightarrow> (Inl (Raised msg), p, tr @ [AuthDefault])
               | Inr c \<Rightarrow> (Inr c, p\<lparr>credentials_memo := Some c\<rparr>, tr @ [AuthDefault]))"
    by (simp add: get_credentials_def)
next
  fix c p1 tr1 e' tr'
  assume "get_credentials e p tr = (Inr c, p1, tr1)"
  then have "credentials_memo p1 = Some c"
    by (rule get_credentials_returns)
  then show "get_credentials e' p1 tr' = (Inr c, p1, tr')"
    by (rule get_credentials_memo_hit)
qed

theorem get_credentials_order_and_cache_witness:
  "get_credentials example_env (init (example_cache\<lparr>credentials_path := Some ''sa.json''\<rparr>)) []
     = (Inr (Credentials ''sa.json''),
        (init (example_cache\<lparr>credentials_path := Some ''sa.json''\<rparr>))
          \<lparr>credentials_memo := Some (Credentials ''sa.json'')\<rparr>,
        [FromServiceAccountFile ''sa.json''])
   \<and> get_credentials example_env (init example_cache) []
     = (Inr (Credentials ''default''),
        (init example_cache)\<lparr>credentials_memo := Some (Credentials ''default'')\<rparr>,
        [AuthDefault])
   \<and> get_credentials example_env
        ((init example_cache)\<lparr>credentials_memo := Some (Credentials ''default'')\<rparr>)
        [AuthDefault]
     = (Inr (Credentials ''default''),
        (init example_cache)\<lparr>credentials_memo := Some (Credentials ''default'')\<rparr>,
        [AuthDefault])"
proof -
  let ?pf = "init (example_cache\<lparr>credentials_path := Some ''sa.json''\<rparr>)"
  let ?pd = "init example_cache"
  have hf: "credentials_memo ?pf = None \<and> credentials_path (cache ?pf) = Some ''sa.json''
            \<and> ''sa.json'' \<noteq> []"
    by (simp add: init_def)
  have hd: "credentials_memo ?pd = None \<and> \<not> truthy_str (credentials_path (cache ?pd))"
    by (simp add: init_def example_cache_def)
  have sf: "from_service_account_file example_env [] ''sa.json'' = Inr (Credentials ''sa.json'')"
    by (simp add: example_env_def)
  have sd: "auth_default example_env [] = Inr (Credentials ''default'')"
    by (simp add: example_env_def)
  from get_credentials_order_and_cache [of ?pf example_env "[]"] hf
  have "get_credentials example_env ?pf []
      = (case from_service_account_file example_env [] ''sa.json'' of
           Inl msg \<Rightarrow> (Inl (Raised msg), ?pf, [] @ [FromServiceAccountFile ''sa.json''])
         | Inr c \<Rightarrow>
             (Inr c, ?pf\<lparr>credentials_memo := Some c\<rparr>,
              [] @ [FromServiceAccountFile ''sa.json'']))"
    by blast
  with sf have rf: "get_credentials example_env ?pf []
      = (Inr (Credentials ''sa.json''), ?pf\<lparr>credentials_memo := Some (Credentials ''sa.json'')\<rparr>,
         [FromServiceAccountFile ''sa.json''])"
    by simp
  from get_credentials_order_and_cache [of ?pd example_env "[]"] hd
  have "get_credentials example_env ?pd []
      = (case auth_default example_env [] of
           Inl msg \<Rightarrow> (Inl (Raised msg), ?pd, [] @ [AuthDefault])
         | Inr c \<Rightarrow> (Inr c, ?pd\<lparr>credentials_memo := Some c\<rparr>, [] @ [AuthDefault]))"
    by blast
  with sd have rd: "get_credentials example_env ?pd []
      = (Inr (Credentials ''default''),
         ?pd\<lparr>credentials_memo := Some (Credentials ''default'')\<rparr>, [AuthDefault])"
    by simp
  from get_credentials_order_and_cache [of ?pd example_env "[]"] rd
  have "get_credentials example_env
          (?pd\<lparr>credentials_memo := Some (Credentials ''default'')\<rparr>) [AuthDefault]
      = (Inr (Credentials ''default''),
         ?pd\<lparr>credentials_memo := Some (Credentials ''default'')\<rparr>, [AuthDefault])"
    by blast
  with rf rd show ?thesis
    by blast
qed

subsection \<open>The swap\<close>

lemma swap_commands_text:
  "join newline (swap_commands p temp final)
   = ''ALTER TABLE `'' @ schema_name (cache p) @ ''`.`'' @ final @ ''` RENAME TO ''
       @ final @ ''_deleteme;'' @ newline
     @ ''ALTER TABLE `'' @ schema_name (cache p) @ ''`.`'' @ temp @ ''` RENAME TO ''
       @ final @ '';'' @ newline
     @ ''DROP TABLE `'' @ schema_name (cache p) @ ''`.`'' @ final @ ''_deleteme`;''"
  by (simp add: swap_commands_def fully_qualified_def backtick_def)

text \<open>
  C1, as amended. Given both table names, the swap makes one \<^verbatim>\<open>_execute_sql\<close> call
  whose text is the three statements, in this order and whatever the warehouse holds:
  rename the final table to \<open>{final}_deleteme\<close>, rename the staging table to the final
  name, drop \<open>{final}_deleteme\<close>. Its result is the result of that call. The
  counterexample below is a first load: \<^verbatim>\<open>_table_exists\<close> reports no final table, and
  the rename-away and the drop are submitted all the same.
\<close>

theorem swap_always_submits_three_statements:
  "swap_temp_table_with_final_table e p tr stream_name (Some temp) (Some final)
   = ((case execute_sql e tr (join newline (swap_commands p temp final)) of
         None \<Rightarrow> Inr ()
       | Some msg \<Rightarrow> Inl (Raised msg)),
      p, tr @ [ExecuteSql (join newline (swap_commands p temp final))])
   \<and> join newline (swap_commands p temp final)
     = ''ALTER TABLE `'' @ schema_name (cache p) @ ''`.`'' @ final @ ''` RENAME TO ''
         @ final @ ''_deleteme;'' @ newline
       @ ''ALTER TABLE `'' @ schema_name (cache p) @ ''`.`'' @ temp @ ''` RENAME TO ''
         @ final @ '';'' @ newline
       @ ''DROP TABLE `'' @ schema_name (cache p) @ ''`.`'' @ final @ ''_deleteme`;''"
proof
  show "swap_temp_table_with_final_table e p tr stream_name (Some temp) (Some final)
   = ((case execute_sql e tr (join newline (swap_commands p temp final)) of
         None \<Rightarrow> Inr ()
       | Some msg \<Rightarrow> Inl (Raised msg)),
      p, tr @ [ExecuteSql (join newline (swap_commands p temp final))])"
    by (cases "execute_sql e tr (join newline (swap_commands p temp final))")
       (simp_all add: swap_temp_table_with_final_table_def)
  show "join newline (swap_commands p temp final)
     = ''ALTER TABLE `'' @ schema_name (cache p) @ ''`.`'' @ final @ ''` RENAME TO ''
         @ final @ ''_deleteme;'' @ newline
       @ ''ALTER TABLE `'' @ schema_name (cache p) @ ''`.`'' @ temp @ ''` RENAME TO ''
         @ final @ '';'' @ newline
       @ ''DROP TABLE `'' @ schema_name (cache p) @ ''`.`'' @ final @ ''_deleteme`;''"
    by (rule swap_commands_text)
qed

theorem swap_first_load_counterexample:
  "table_exists example_env (init example_cache) [] ''users''
     = (Inr False, (init example_cache)\<lparr>credentials_memo := Some (Credentials ''default'')\<rparr>,
        [AuthDefault, NewClient (Credentials ''default''), GetTable ''proj.main.users''])
   \<and> swap_temp_table_with_final_table example_env (init example_cache) [] ''users''
       (Some ''users_b1'') (Some ''users'')
     = (Inr (), init example_cache,
        [ExecuteSql (''ALTER TABLE `main`.`users` RENAME TO users_deleteme;'' @ newline
                     @ ''ALTER TABLE `main`.`users_b1` RENAME TO users;'' @ newline
                     @ ''DROP TABLE `main`.`users_deleteme`;'')])
   \<and> snd (snd (swap_temp_table_with_final_table example_env (init example_cache) [] ''users''
                  (Some ''users_b1'') (Some ''users'')))
     \<noteq> [ExecuteSql ''ALTER TABLE `main`.`users_b1` RENAME TO users;'']"
proof (intro conjI)
  show "table_exists example_env (init example_cache) [] ''users''
     = (Inr False, (init example_cache)\<lparr>credentials_memo := Some (Credentials ''default'')\<rparr>,
        [AuthDefault, NewClient (Credentials ''default''), GetTable ''proj.main.users''])"
    by (simp add: table_exists_def bigquery_client_def get_credentials_def init_def
          example_cache_def example_env_def)
  have "join newline (swap_commands (init example_cache) ''users_b1'' ''users'')
      = ''ALTER TABLE `main`.`users` RENAME TO users_deleteme;'' @ newline
        @ ''ALTER TABLE `main`.`users_b1` RENAME TO users;'' @ newline
        @ ''DROP TABLE `main`.`users_deleteme`;''"
    by (simp add: swap_commands_text init_def example_cache_def)
  then show run: "swap_temp_table_with_final_table example_env (init example_cache) []
       ''users'' (Some ''users_b1'') (Some ''users'')
     = (Inr (), init example_cache,
        [ExecuteSql (''ALTER TABLE `main`.`users` RENAME TO users_deleteme;'' @ newline
                     @ ''ALTER TABLE `main`.`users_b1` RENAME TO users;'' @ newline
                     @ ''DROP TABLE `main`.`users_deleteme`;'')])"
    by (simp add: swap_temp_table_with_final_table_def example_env_def)
  show "snd (snd (swap_temp_table_with_final_table example_env (init example_cache) [] ''users''
                  (Some ''users_b1'') (Some ''users'')))
     \<noteq> [ExecuteSql ''ALTER TABLE `main`.`users_b1` RENAME TO users;'']"
    by (simp add: run newline_def)
qed

subsection \<open>Order of the bulk loads\<close>

lemma load_files_trace:
  "load_files e stream_name table_id files tr = (x, tr') \<Longrightarrow>
   \<exists>d. tr' = tr @ d
     \<and> prefix d (concat (map (load_events table_id (get_sql_column_definitions e stream_name))
                          files))
     \<and> (x = None \<longrightarrow>
          d = concat (map (load_events table_id (get_sql_column_definitions e stream_name))
                       files))"
proof (induction files arbitrary: tr x tr')
  case Nil
  then show ?case by simp
next
  case (Cons f fs)
  let ?sch = "get_sql_column_definitions e stream_name"
  let ?tr1 = "tr @ [PathOpen f]"
  let ?tr2 = "?tr1 @ [LoadTableFromFile f table_id ?sch]"
  let ?tr3 = "?tr2 @ [LoadJobResult f]"
  show ?case
  proof (cases "path_open e tr f")
    case (Some msg)
    with Cons.prems have "tr' = tr @ [PathOpen f]" and "x \<noteq> None"
      by auto
    then show ?thesis
      by (auto simp: load_events_def)
  next
    case None
    note opened = None
    show ?thesis
    proof (cases "client_load_table_from_file e ?tr1 f table_id ?sch")
      case (Some msg)
      with Cons.prems opened
      have "tr' = tr @ [PathOpen f, LoadTableFromFile f table_id ?sch]" and "x \<noteq> None"
        by (auto simp: Let_def)
      then show ?thesis
        by (auto simp: load_events_def)
    next
      case None
      note submitted = None
      show ?thesis
      proof (cases "load_job_result e ?tr2 f")
        case (Some msg)
        with Cons.prems opened submitted
        have "tr' = tr @ load_events table_id ?sch f" and "x \<noteq> None"
          by (auto simp: Let_def load_events_def)
        then show ?thesis
          by auto
      next
        case None
        with Cons.prems opened submitted
        have "load_files e stream_name table_id fs ?tr3 = (x, tr')"
          by (simp add: Let_def)
        from Cons.IH [OF this] obtain d where
          d: "tr' = ?tr3 @ d"
             "prefix d (concat (map (load_events table_id ?sch) fs))"
             "x = None \<longrightarrow> d = concat (map (load_events table_id ?sch) fs)"
          by blast
        have "tr' = tr @ (load_events table_id ?sch f @ d)"
          using d(1) by (simp add: load_events_def)
        moreover have "prefix (load_events table_id ?sch f @ d)
            (concat (map (load_events table_id ?sch) (f # fs)))"
          using d(2) by simp
        moreover have "x = None \<longrightarrow> load_events table_id ?sch f @ d
            = concat (map (load_events table_id ?sch) (f # fs))"
          using d(3) by simp
        ultimately show ?thesis
          by blast
      qed
    qed
  qed
qed

lemma get_credentials_trace:
  assumes "get_credentials e p tr = (r, p1, tr1)"
  shows "cache p1 = cache p
         \<and> (tr1 = tr \<or> tr1 = tr @ [AuthDefault]
              \<or> (\<exists>path. tr1 = tr @ [FromServiceAccountFile path]))"
  using assms
  by (auto simp: get_credentials_def Let_def split: option.splits if_splits sum.splits)

lemma bigquery_client_trace:
  assumes "bigquery_client e p tr = (r, p1, tr1)"
  shows "cache p1 = cache p \<and> (\<exists>d. tr1 = tr @ d \<and> (\<forall>ev \<in> set d. is_client_event ev))"
proof -
  obtain r0 p0 tr0 where g: "get_credentials e p tr = (r0, p0, tr0)"
    by (cases "get_credentials e p tr") auto
  from get_credentials_trace [OF g] obtain d0 where
    c0: "cache p0 = cache p" and tr0: "tr0 = tr @ d0"
    and d0: "\<forall>ev \<in> set d0. is_client_event ev"
    by auto
  show ?thesis
  proof (cases r0)
    case (Inl ex)
    with assms g have "p1 = p0" and "tr1 = tr0"
      by (simp_all add: bigquery_client_def)
    with c0 tr0 d0 show ?thesis
      by blast
  next
    case (Inr c)
    with assms g have "p1 = p0" and "tr1 = tr0 @ [NewClient c]"
      by (auto simp: bigquery_client_def split: option.splits)
    with c0 tr0 have "cache p1 = cache p" and "tr1 = tr @ (d0 @ [NewClient c])"
      by simp_all
    moreover from d0 have "\<forall>ev \<in> set (d0 @ [NewClient c]). is_client_event ev"
      by simp
    ultimately show ?thesis
      by blast
  qed
qed

lemma create_table_for_loading_trace:
  assumes "create_table_for_loading e p tr stream_name batch_id = (r, p1, tr1)"
  shows "p1 = p
         \<and> tr1 = tr @ [CreateTable (temp_table_name_of e stream_name batch_id)
                         (get_sql_column_definitions e stream_name)]
         \<and> (\<forall>name. r = Inr name \<longrightarrow> name = temp_table_name_of e stream_name batch_id)"
  using assms
  by (auto simp: create_table_for_loading_def Let_def split: option.splits)

lemma write_files_to_new_table_trace:
  assumes "write_files_to_new_table e p tr files stream_name batch_id = (r, p', tr')"
  shows "\<exists>creds loads.
           tr' = tr @ [CreateTable (temp_table_name_of e stream_name batch_id)
                         (get_sql_column_definitions e stream_name)] @ creds @ loads
         \<and> (\<forall>ev \<in> set creds. is_client_event ev)
         \<and> prefix loads
              (concat (map (load_events
                              (project_name (cache p) @ ''.'' @ dataset_name (cache p) @ ''.''
                                 @ temp_table_name_of e stream_name batch_id)
                              (get_sql_column_definitions e stream_name)) files))
         \<and> (\<forall>name. r = Inr name \<longrightarrow>
               name = temp_table_name_of e stream_name batch_id
             \<and> loads = concat (map (load_events
                              (project_name (cache p) @ ''.'' @ dataset_name (cache p) @ ''.''
                                 @ temp_table_name_of e stream_name batch_id)
                              (get_sql_column_definitions e stream_name)) files))"
proof -
  let ?name = "temp_table_name_of e stream_name batch_id"
  let ?sch = "get_sql_column_definitions e stream_name"
  let ?tid = "project_name (cache p) @ ''.'' @ dataset_name (cache p) @ ''.'' @ ?name"
  obtain r1 p1 tr1 where c: "create_table_for_loading e p tr stream_name batch_id = (r1, p1, tr1)"
    by (cases "create_table_for_loading e p tr stream_name batch_id") auto
  from create_table_for_loading_trace [OF c]
  have p1: "p1 = p" and tr1: "tr1 = tr @ [CreateTable ?name ?sch]"
    and n1: "\<forall>name. r1 = Inr name \<longrightarrow> name = ?name"
    by blast+
  show ?thesis
  proof (cases r1)
    case (Inl ex)
    with assms c have "tr' = tr1" and "r = Inl ex"
      by (simp_all add: write_files_to_new_table_def)
    with tr1 show ?thesis
      by (intro exI [of _ "[]"]) simp
  next
    case (Inr name)
    with n1 have name: "name = ?name"
      by simp
    obtain r2 p2 tr2 where g: "bigquery_client e p tr1 = (r2, p2, tr2)"
      by (cases "bigquery_client e p tr1") auto
    from bigquery_client_trace [OF g] obtain creds where
      tr2: "tr2 = tr1 @ creds"
      and creds: "\<forall>ev \<in> set creds. is_client_event ev"
      by auto
    show ?thesis
    proof (cases r2)
      case (Inl ex)
      with assms c g Inr p1 have "tr' = tr2" and "r = Inl ex"
        by (simp_all add: write_files_to_new_table_def)
      with tr1 tr2 creds show ?thesis
        by (intro exI [of _ creds] exI [of _ "[]"]) simp
    next
      case cr: (Inr cred)
      obtain x tr3 where l: "load_files e stream_name ?tid files tr2 = (x, tr3)"
        by (cases "load_files e stream_name ?tid files tr2") auto
      from load_files_trace [OF l] obtain loads where
        tr3: "tr3 = tr2 @ loads"
        and pre: "prefix loads (concat (map (load_events ?tid ?sch) files))"
        and full: "x = None \<longrightarrow> loads = concat (map (load_events ?tid ?sch) files)"
        by blast
      from assms c g Inr cr p1 name l
      have out: "tr' = tr3" "r = (case x of Some ex \<Rightarrow> Inl ex | None \<Rightarrow> Inr ?name)"
        by (auto simp: write_files_to_new_table_def Let_def split: option.splits)
      have "\<forall>name. r = Inr name \<longrightarrow>
              name = ?name \<and> loads = concat (map (load_events ?tid ?sch) files)"
        using out(2) full by (cases x) auto
      with out(1) tr1 tr2 tr3 creds pre show ?thesis
        by (intro exI [of _ creds] exI [of _ loads]) simp
    qed
  qed
qed

lemma client_event_not_load: "is_client_event ev \<Longrightarrow> \<not> is_load_event ev"
  by (cases ev) simp_all

lemma load_event_in_loads:
  "ev \<in> set (concat (map (load_events table_id schema) files)) \<Longrightarrow>
   is_load_event ev
   \<and> (\<forall>f dest sch. ev = LoadTableFromFile f dest sch \<longrightarrow> dest = table_id \<and> sch = schema)"
  by (auto simp: load_events_def)

lemma example_run:
  "write_files_to_new_table example_env (init example_cache) [] [''f1.jsonl'', ''f2.jsonl'']
     ''users'' ''b1''
   = (Inr ''users_b1'',
      (init example_cache)\<lparr>credentials_memo := Some (Credentials ''default'')\<rparr>,
      [CreateTable ''users_b1'' [(''id'', ''INT64''), (''name'', ''String'')],
       AuthDefault,
       NewClient (Credentials ''default''),
       PathOpen ''f1.jsonl'',
       LoadTableFromFile ''f1.jsonl'' ''proj.main.users_b1''
         [(''id'', ''INT64''), (''name'', ''String'')],
       LoadJobResult ''f1.jsonl'',
       PathOpen ''f2.jsonl'',
       LoadTableFromFile ''f2.jsonl'' ''proj.main.users_b1''
         [(''id'', ''INT64''), (''name'', ''String'')],
       LoadJobResult ''f2.jsonl''])"
  by (simp add: write_files_to_new_table_def create_table_for_loading_def
        get_sql_column_definitions_def sql_type_name_def get_string_type_def
        bigquery_client_def get_credentials_def example_env_def init_def example_cache_def
        Let_def)

text \<open>
  C7. Whatever the outcome of \<^verbatim>\<open>_write_files_to_new_table\<close>, the calls it adds to
  the trace are a prelude without load calls followed by a prefix of the sequence
  open, submit, wait for the first file, then open, submit, wait for the second file,
  and so on in the order the files were given: a job is submitted only after the wait
  for the job before it has ended. When the method returns the staging table name, the
  sequence is complete, so every submitted job has been waited for.
\<close>

theorem write_files_loads_in_order_and_waits:
  assumes "write_files_to_new_table e p tr files stream_name batch_id = (r, p', tr')"
  shows "\<exists>prelude loads.
           tr' = tr @ prelude @ loads
         \<and> (\<forall>ev \<in> set prelude. \<not> is_load_event ev)
         \<and> prefix loads
              (concat (map (load_events
                              (project_name (cache p) @ ''.'' @ dataset_name (cache p) @ ''.''
                                 @ temp_table_name_of e stream_name batch_id)
                              (get_sql_column_definitions e stream_name)) files))
         \<and> (\<forall>name. r = Inr name \<longrightarrow>
               loads = concat (map (load_events
                              (project_name (cache p) @ ''.'' @ dataset_name (cache p) @ ''.''
                                 @ temp_table_name_of e stream_name batch_id)
                              (get_sql_column_definitions e stream_name)) files))"
proof -
  let ?create = "CreateTable (temp_table_name_of e stream_name batch_id)
                   (get_sql_column_definitions e stream_name)"
  let ?pattern = "concat (map (load_events
                     (project_name (cache p) @ ''.'' @ dataset_name (cache p) @ ''.''
                        @ temp_table_name_of e stream_name batch_id)
                     (get_sql_column_definitions e stream_name)) files)"
  from write_files_to_new_table_trace [OF assms] obtain creds loads where
    tr': "tr' = tr @ [?create] @ creds @ loads"
    and creds: "\<forall>ev \<in> set creds. is_client_event ev"
    and pre: "prefix loads ?pattern"
    and full: "\<forall>name. r = Inr name \<longrightarrow>
                 name = temp_table_name_of e stream_name batch_id \<and> loads = ?pattern"
    by blast
  from creds have "\<forall>ev \<in> set ([?create] @ creds). \<not> is_load_event ev"
    using client_event_not_load by auto
  moreover from tr' have "tr' = tr @ ([?create] @ creds) @ loads"
    by simp
  ultimately show ?thesis
    using pre full by blast
qed

theorem write_files_loads_in_order_and_waits_witness:
  "write_files_to_new_table example_env (init example_cache) [] [''f1.jsonl'', ''f2.jsonl'']
     ''users'' ''b1''
   = (Inr ''users_b1'',
      (init example_cache)\<lparr>credentials_memo := Some (Credentials ''default'')\<rparr>,
      [CreateTable ''users_b1'' [(''id'', ''INT64''), (''name'', ''String'')],
       AuthDefault,
       NewClient (Credentials ''default''),
       PathOpen ''f1.jsonl'',
       LoadTableFromFile ''f1.jsonl'' ''proj.main.users_b1''
         [(''id'', ''INT64''), (''name'', ''String'')],
       LoadJobResult ''f1.jsonl'',
       PathOpen ''f2.jsonl'',
       LoadTableFromFile ''f2.jsonl'' ''proj.main.users_b1''
         [(''id'', ''INT64''), (''name'', ''String'')],
       LoadJobResult ''f2.jsonl''])
   \<and> (\<exists>prelude. [CreateTable ''users_b1'' [(''id'', ''INT64''), (''name'', ''String'')],
                AuthDefault,
                NewClient (Credentials ''default''),
                PathOpen ''f1.jsonl'',
                LoadTableFromFile ''f1.jsonl'' ''proj.main.users_b1''
                  [(''id'', ''INT64''), (''name'', ''String'')],
                LoadJobResult ''f1.jsonl'',
                PathOpen ''f2.jsonl'',
                LoadTableFromFile ''f2.jsonl'' ''proj.main.users_b1''
                  [(''id'', ''INT64''), (''name'', ''String'')],
                LoadJobResult ''f2.jsonl'']
              = prelude
                @ concat (map (load_events ''proj.main.users_b1''
                                 [(''id'', ''INT64''), (''name'', ''String'')])
                            [''f1.jsonl'', ''f2.jsonl''])
            \<and> (\<forall>ev \<in> set prelude. \<not> is_load_event ev))"
proof -
  have cols: "get_sql_column_definitions example_env ''users''
      = [(''id'', ''INT64''), (''name'', ''String'')]"
    by (simp add: get_sql_column_definitions_def sql_type_name_def get_string_type_def
          example_env_def)
  have tid: "project_name (cache (init example_cache)) @ ''.''
        @ dataset_name (cache (init example_cache)) @ ''.''
        @ temp_table_name_of example_env ''users'' ''b1'' = ''proj.main.users_b1''"
    by (simp add: init_def example_cache_def example_env_def)
  from write_files_loads_in_order_and_waits [OF example_run]
  obtain prelude loads where
    "[CreateTable ''users_b1'' [(''id'', ''INT64''), (''name'', ''String'')],
       AuthDefault,
       NewClient (Credentials ''default''),
       PathOpen ''f1.jsonl'',
       LoadTableFromFile ''f1.jsonl'' ''proj.main.users_b1''
         [(''id'', ''INT64''), (''name'', ''String'')],
       LoadJobResult ''f1.jsonl'',
       PathOpen ''f2.jsonl'',
       LoadTableFromFile ''f2.jsonl'' ''proj.main.users_b1''
         [(''id'', ''INT64''), (''name'', ''String'')],
       LoadJobResult ''f2.jsonl''] = [] @ prelude @ loads"
    and "\<forall>ev \<in> set prelude. \<not> is_load_event ev"
    and "\<forall>name. Inr ''users_b1'' = (Inr name :: exn + string) \<longrightarrow>
           loads = concat (map (load_events
                     (project_name (cache (init example_cache)) @ ''.''
                        @ dataset_name (cache (init example_cache)) @ ''.''
                        @ temp_table_name_of example_env ''users'' ''b1'')
                     (get_sql_column_definitions example_env ''users''))
                   [''f1.jsonl'', ''f2.jsonl''])"
    by blast
  then have "\<exists>prelude. [CreateTable ''users_b1'' [(''id'', ''INT64''), (''name'', ''String'')],
                AuthDefault,
                NewClient (Credentials ''default''),
                PathOpen ''f1.jsonl'',
                LoadTableFromFile ''f1.jsonl'' ''proj.main.users_b1''
                  [(''id'', ''INT64''), (''name'', ''String'')],
                LoadJobResult ''f1.jsonl'',
                PathOpen ''f2.jsonl'',
                LoadTableFromFile ''f2.jsonl'' ''proj.main.users_b1''
                  [(''id'', ''INT64''), (''name'', ''String'')],
                LoadJobResult ''f2.jsonl'']
              = prelude
                @ concat (map (load_events ''proj.main.users_b1''
                                 [(''id'', ''INT64''), (''name'', ''String'')])
                            [''f1.jsonl'', ''f2.jsonl''])
            \<and> (\<forall>ev \<in> set prelude. \<not> is_load_event ev)"
    unfolding cols tid by (intro exI [of _ prelude]) simp
  with example_run show ?thesis
    by (rule conjI)
qed

subsection \<open>Staging table and schema of the load jobs\<close>

text \<open>
  C6. Whatever the outcome of \<^verbatim>\<open>_write_files_to_new_table\<close>, the first call it adds
  to the trace is the creation of the staging table, with the columns obtained by
  applying the type converter to the column descriptors of the stream; no other table is
  created, and every load job that follows is given the staging table as destination
  and exactly those columns as schema, which do not depend on the files.
\<close>

theorem write_files_creates_table_before_loading:
  assumes "write_files_to_new_table e p tr files stream_name batch_id = (r, p', tr')"
  shows "\<exists>rest.
           tr' = tr @ CreateTable (temp_table_name_of e stream_name batch_id)
                        (map (\<lambda>(name, d). (name, sql_type_name (super_to_sql_type e d)))
                           (stream_properties e stream_name))
                      # rest
         \<and> (\<forall>f dest sch. LoadTableFromFile f dest sch \<in> set rest \<longrightarrow>
               dest = project_name (cache p) @ ''.'' @ dataset_name (cache p) @ ''.''
                        @ temp_table_name_of e stream_name batch_id
             \<and> sch = map (\<lambda>(name, d). (name, sql_type_name (super_to_sql_type e d)))
                        (stream_properties e stream_name))
         \<and> (\<forall>name columns. CreateTable name columns \<notin> set rest)"
proof -
  let ?cols = "get_sql_column_definitions e stream_name"
  let ?create = "CreateTable (temp_table_name_of e stream_name batch_id) ?cols"
  let ?tid = "project_name (cache p) @ ''.'' @ dataset_name (cache p) @ ''.''
                @ temp_table_name_of e stream_name batch_id"
  let ?pattern = "concat (map (load_events ?tid ?cols) files)"
  from write_files_to_new_table_trace [OF assms] obtain creds loads where
    tr': "tr' = tr @ [?create] @ creds @ loads"
    and creds: "\<forall>ev \<in> set creds. is_client_event ev"
    and pre: "prefix loads ?pattern"
    by blast
  from pre have sub: "set loads \<subseteq> set ?pattern"
    by (rule set_mono_prefix)
  have loads: "\<forall>ev \<in> set loads. is_load_event ev
      \<and> (\<forall>f dest sch. ev = LoadTableFromFile f dest sch \<longrightarrow> dest = ?tid \<and> sch = ?cols)"
    using sub load_event_in_loads [of _ ?tid ?cols files] by blast
  have a: "\<forall>f dest sch. LoadTableFromFile f dest sch \<in> set (creds @ loads) \<longrightarrow>
             dest = ?tid \<and> sch = ?cols"
    using creds loads by auto
  have b: "\<forall>name columns. CreateTable name columns \<notin> set (creds @ loads)"
    using creds loads by fastforce
  from tr' have "tr' = tr @ ?create # (creds @ loads)"
    by simp
  with a b have "\<exists>rest. tr' = tr @ ?create # rest
      \<and> (\<forall>f dest sch. LoadTableFromFile f dest sch \<in> set rest \<longrightarrow> dest = ?tid \<and> sch = ?cols)
      \<and> (\<forall>name columns. CreateTable name columns \<notin> set rest)"
    by blast
  then show ?thesis
    by (simp only: get_sql_column_definitions_def)
qed

theorem write_files_creates_table_before_loading_witness:
  "write_files_to_new_table example_env (init example_cache) [] [''f1.jsonl'', ''f2.jsonl'']
     ''users'' ''b1''
   = (Inr ''users_b1'',
      (init example_cache)\<lparr>credentials_memo := Some (Credentials ''default'')\<rparr>,
      [CreateTable ''users_b1'' [(''id'', ''INT64''), (''name'', ''String'')],
       AuthDefault,
       NewClient (Credentials ''default''),
       PathOpen ''f1.jsonl'',
       LoadTableFromFile ''f1.jsonl'' ''proj.main.users_b1''
         [(''id'', ''INT64''), (''name'', ''String'')],
       LoadJobResult ''f1.jsonl'',
       PathOpen ''f2.jsonl'',
       LoadTableFromFile ''f2.jsonl'' ''proj.main.users_b1''
         [(''id'', ''INT64''), (''name'', ''String'')],
       LoadJobResult ''f2.jsonl''])
   \<and> map (\<lambda>(name, d). (name, sql_type_name (super_to_sql_type example_env d)))
       (stream_properties example_env ''users'')
     = [(''id'', ''INT64''), (''name'', ''String'')]
   \<and> (\<exists>rest. [CreateTable ''users_b1'' [(''id'', ''INT64''), (''name'', ''String'')],
               AuthDefault,
               NewClient (Credentials ''default''),
               PathOpen ''f1.jsonl'',
               LoadTableFromFile ''f1.jsonl'' ''proj.main.users_b1''
                 [(''id'', ''INT64''), (''name'', ''String'')],
               LoadJobResult ''f1.jsonl'',
               PathOpen ''f2.jsonl'',
               LoadTableFromFile ''f2.jsonl'' ''proj.main.users_b1''
                 [(''id'', ''INT64''), (''name'', ''String'')],
               LoadJobResult ''f2.jsonl'']
             = CreateTable (temp_table_name_of example_env ''users'' ''b1'')
                 (map (\<lambda>(name, d). (name, sql_type_name (super_to_sql_type example_env d)))
                    (stream_properties example_env ''users''))
               # rest
           \<and> (\<forall>name columns. CreateTable name columns \<notin> set rest))"
proof -
  have cols: "map (\<lambda>(name, d). (name, sql_type_name (super_to_sql_type example_env d)))
       (stream_properties example_env ''users'')
     = [(''id'', ''INT64''), (''name'', ''String'')]"
    by (simp add: sql_type_name_def get_string_type_def example_env_def)
  from write_files_creates_table_before_loading [OF example_run]
  have "\<exists>rest. [CreateTable ''users_b1'' [(''id'', ''INT64''), (''name'', ''String'')],
               AuthDefault,
               NewClient (Credentials ''default''),
               PathOpen ''f1.jsonl'',
               LoadTableFromFile ''f1.jsonl'' ''proj.main.users_b1''
                 [(''id'', ''INT64''), (''name'', ''String'')],
               LoadJobResult ''f1.jsonl'',
               PathOpen ''f2.jsonl'',
               LoadTableFromFile ''f2.jsonl'' ''proj.main.users_b1''
                 [(''id'', ''INT64''), (''name'', ''String'')],
               LoadJobResult ''f2.jsonl'']
             = [] @ CreateTable (temp_table_name_of example_env ''users'' ''b1'')
                 (map (\<lambda>(name, d). (name, sql_type_name (super_to_sql_type example_env d)))
                    (stream_properties example_env ''users''))
               # rest
           \<and> (\<forall>name columns. CreateTable name columns \<notin> set rest)"
    by blast
  then have "\<exists>rest. [CreateTable ''users_b1'' [(''id'', ''INT64''), (''name'', ''String'')],
               AuthDefault,
               NewClient (Credentials ''default''),
               PathOpen ''f1.jsonl'',
               LoadTableFromFile ''f1.jsonl'' ''proj.main.users_b1''
                 [(''id'', ''INT64''), (''name'', ''String'')],
               LoadJobResult ''f1.jsonl'',
               PathOpen ''f2.jsonl'',
               LoadTableFromFile ''f2.jsonl'' ''proj.main.users_b1''
                 [(''id'', ''INT64''), (''name'', ''String'')],
               LoadJobResult ''f2.jsonl'']
             = CreateTable (temp_table_name_of example_env ''users'' ''b1'')
                 (map (\<lambda>(name, d). (name, sql_type_name (super_to_sql_type example_env d)))
                    (stream_properties example_env ''users''))
               # rest
           \<and> (\<forall>name columns. CreateTable name columns \<notin> set rest)"
    by (simp only: append_Nil)
  with example_run cols show ?thesis
    by (intro conjI)
qed

end
